theory Spec2Isabelle
  imports Complex_Main
begin

section \<open>The Map component of src/components/Map.tsx\<close>

text \<open>
  The file holds two versions of the component; the second one (with a destination, a
  threshold, notifications and the "I'm up" button) is the one modelled here.

  Numbers. Coordinates and distances are JavaScript numbers, read as the reals they
  denote. \<open>Date.now()\<close> is a count of milliseconds since the epoch, a natural number;
  the one subtraction of two times in the source can be negative and is taken over the
  integers. \<open>L.latLng(..).distanceTo(..)\<close> belongs to the Leaflet library, not to this
  repository: every function that needs it takes it as the parameter \<open>distanceTo\<close>.
\<close>

type_synonym latlng = "real \<times> real"

type_synonym timer_id = nat

datatype permission = Granted | Denied | Default

text \<open>The \<open>useState\<close> cells of the component, with the source's names.\<close>

record component =
  userPosition :: "latlng option"
  destinationPosition :: "latlng option"
  distanceMeters :: "real option"
  geoError :: "string option"
  selectedDistance :: real
  notificationsEnabled :: bool
  notificationInterval :: "timer_id option"
  lastNotificationTime :: nat
  isNearDestination :: bool
  countdownSeconds :: nat

text \<open>
  A running \<open>setInterval\<close>: the time of its next tick and the values its callback closed
  over. The 30 s callback closes over \<open>userPosition\<close>, \<open>destinationPosition\<close> and
  \<open>selectedDistance\<close>; the 1 s countdown callback over \<open>lastNotificationTime\<close>.
\<close>

datatype timer =
  NotifyTimer nat "latlng option" "latlng option" real
| CountdownTimer nat nat

text \<open>
  The component inside its browser: the state cells, whether it is mounted, the
  geolocation watch, the notification permission (\<open>None\<close> when \<open>Notification\<close> is not in
  \<open>window\<close>), the table of running intervals, the handle each effect's cleanup closure
  holds, and the notifications constructed so far (time and the threshold in the body).
  Timer handles are fresh positive integers, so a handle is always truthy.
\<close>

record browser =
  cells :: component
  mounted :: bool
  geoSupported :: bool
  watching :: bool
  permission :: "permission option"
  timers :: "(timer_id \<times> timer) list"
  nextTimer :: timer_id
  intervalCleanup :: "timer_id option"
  countdownCleanup :: "timer_id option"
  delivered :: "(nat \<times> real) list"

definition distanceOptions :: "real list" where
  "distanceOptions = [2, 3, 4, 5, 10, 20]"

definition initial_component :: component where
  "initial_component =
     \<lparr> userPosition = None, destinationPosition = None, distanceMeters = None,
       geoError = None, selectedDistance = 5, notificationsEnabled = True,
       notificationInterval = None, lastNotificationTime = 0,
       isNearDestination = False, countdownSeconds = 0 \<rparr>"

subsection \<open>Browser primitives\<close>

definition clearInterval :: "timer_id \<Rightarrow> (timer_id \<times> timer) list \<Rightarrow> (timer_id \<times> timer) list" where
  "clearInterval i ts = filter (\<lambda>p. fst p \<noteq> i) ts"

definition setInterval :: "timer \<Rightarrow> browser \<Rightarrow> timer_id \<times> browser" where
  "setInterval t w =
     (nextTimer w, w\<lparr> timers := timers w @ [(nextTimer w, t)], nextTimer := Suc (nextTimer w) \<rparr>)"

text \<open>\<open>sendNotification\<close>: a notification is constructed only under a granted permission.\<close>

definition sendNotification :: "nat \<Rightarrow> real \<Rightarrow> browser \<Rightarrow> browser" where
  "sendNotification now km w =
     (if permission w = Some Granted then w\<lparr> delivered := delivered w @ [(now, km)] \<rparr> else w)"

subsection \<open>The effects\<close>

text \<open>
  Each effect reads the state cells of the render it belongs to (the snapshot \<open>s\<close>) and
  writes through the setters into the browser \<open>w\<close>.
\<close>

text \<open>The geolocation effect (dependencies \<open>[]\<close>) and its cleanup.\<close>

definition geolocation_effect :: "browser \<Rightarrow> browser" where
  "geolocation_effect w =
     (if \<not> geoSupported w
      then w\<lparr> cells := (cells w)\<lparr> geoError := Some ''Geolocation is not supported by this browser.'' \<rparr> \<rparr>
      else w\<lparr> watching := True \<rparr>)"

definition geolocation_cleanup :: "browser \<Rightarrow> browser" where
  "geolocation_cleanup w = (if geoSupported w then w\<lparr> watching := False \<rparr> else w)"

text \<open>"Calculate distance and handle notifications".\<close>

definition distance_effect ::
  "(latlng \<Rightarrow> latlng \<Rightarrow> real) \<Rightarrow> nat \<Rightarrow> component \<Rightarrow> browser \<Rightarrow> browser" where
  "distance_effect distanceTo now s w =
     (case userPosition s of
        None \<Rightarrow> w
      | Some user \<Rightarrow>
         (case destinationPosition s of
            None \<Rightarrow> w
          | Some destination \<Rightarrow>
             (let distance = distanceTo user destination;
                  isNear = (distance \<le> selectedDistance s * 1000);
                  w1 = w\<lparr> cells := (cells w)\<lparr> distanceMeters := Some distance,
                                             isNearDestination := isNear \<rparr> \<rparr>
              in if notificationsEnabled s \<and> isNear
                 then (let timeSinceLastNotification = int now - int (lastNotificationTime s);
                           notificationInterval = (if isNear then 30000 else 60000)
                       in if timeSinceLastNotification \<ge> notificationInterval
                          then (let w2 = sendNotification now (selectedDistance s) w1
                                in w2\<lparr> cells := (cells w2)\<lparr> lastNotificationTime := now \<rparr> \<rparr>)
                          else w1)
                 else w1)))"

text \<open>"Set up notification interval", and the cleanup it returns.\<close>

definition interval_cleanup :: "browser \<Rightarrow> browser" where
  "interval_cleanup w =
     (case intervalCleanup w of
        None \<Rightarrow> w
      | Some i \<Rightarrow> w\<lparr> timers := clearInterval i (timers w), intervalCleanup := None \<rparr>)"

definition interval_effect :: "nat \<Rightarrow> component \<Rightarrow> browser \<Rightarrow> browser" where
  "interval_effect now s w =
     (if \<not> notificationsEnabled s \<or> destinationPosition s = None
      then (case notificationInterval s of
              Some i \<Rightarrow> w\<lparr> timers := clearInterval i (timers w),
                            cells := (cells w)\<lparr> notificationInterval := None \<rparr>,
                            intervalCleanup := None \<rparr>
            | None \<Rightarrow> w\<lparr> intervalCleanup := None \<rparr>)
      else (let (i, w1) = setInterval (NotifyTimer (now + 30000) (userPosition s)
                                         (destinationPosition s) (selectedDistance s)) w
            in w1\<lparr> cells := (cells w1)\<lparr> notificationInterval := Some i \<rparr>,
                   intervalCleanup := Some i \<rparr>))"

text \<open>"Countdown timer effect", and the cleanup it returns.\<close>

definition countdown_cleanup :: "browser \<Rightarrow> browser" where
  "countdown_cleanup w =
     (case countdownCleanup w of
        None \<Rightarrow> w
      | Some i \<Rightarrow> w\<lparr> timers := clearInterval i (timers w), countdownCleanup := None \<rparr>)"

definition countdown_effect :: "nat \<Rightarrow> component \<Rightarrow> browser \<Rightarrow> browser" where
  "countdown_effect now s w =
     (if lastNotificationTime s > now
      then (let (i, w1) = setInterval (CountdownTimer (now + 1000) (lastNotificationTime s)) w
            in w1\<lparr> countdownCleanup := Some i \<rparr>)
      else w\<lparr> cells := (cells w)\<lparr> countdownSeconds := 0 \<rparr>, countdownCleanup := None \<rparr>)"

subsection \<open>Committing a render\<close>

text \<open>
  After a render React runs the cleanups of the effects whose dependencies changed, then
  those effects, in the order of the source; the setters they call give the next render.
  \<open>depsCh\<close> says that one of \<open>userPosition\<close>, \<open>destinationPosition\<close>, \<open>selectedDistance\<close>,
  \<open>notificationsEnabled\<close> changed (dependencies of the distance and the interval effect),
  \<open>lastCh\<close> that \<open>lastNotificationTime\<close> did (distance and countdown effect). Of the cells
  the effects write, only \<open>lastNotificationTime\<close> is a dependency, so the next render
  runs effects again exactly when that cell changed.
\<close>

definition run_effects ::
  "(latlng \<Rightarrow> latlng \<Rightarrow> real) \<Rightarrow> nat \<Rightarrow> bool \<Rightarrow> bool \<Rightarrow> browser \<Rightarrow> browser" where
  "run_effects distanceTo now depsCh lastCh w =
     (let s = cells w;
          w1 = (if depsCh then interval_cleanup w else w);
          w2 = (if lastCh then countdown_cleanup w1 else w1);
          w3 = distance_effect distanceTo now s w2;
          w4 = (if depsCh then interval_effect now s w3 else w3)
      in (if lastCh then countdown_effect now s w4 else w4))"

function commit ::
  "(latlng \<Rightarrow> latlng \<Rightarrow> real) \<Rightarrow> nat \<Rightarrow> bool \<Rightarrow> bool \<Rightarrow> browser \<Rightarrow> browser" where
  "commit distanceTo now depsCh lastCh w =
     (if \<not> depsCh \<and> \<not> lastCh then w
      else (let w' = run_effects distanceTo now depsCh lastCh w
            in if lastNotificationTime (cells w') \<noteq> lastNotificationTime (cells w)
               then commit distanceTo now False True w'
               else w'))"
  by pat_completeness auto

text \<open>
  That \<open>commit\<close> terminates is proved with the lemmas below: there are at most two
  rounds.
\<close>

subsection \<open>Event handlers and timer callbacks\<close>

text \<open>The success and error callbacks of \<open>watchPosition\<close>.\<close>

definition watchSuccess :: "real \<Rightarrow> real \<Rightarrow> component \<Rightarrow> component" where
  "watchSuccess latitude longitude s =
     s\<lparr> userPosition := Some (latitude, longitude), geoError := None \<rparr>"

definition watchError :: "string \<Rightarrow> component \<Rightarrow> component" where
  "watchError message s =
     s\<lparr> geoError := Some (if message = [] then ''Failed to retrieve position'' else message) \<rparr>"

definition handleMapClick :: "real \<Rightarrow> real \<Rightarrow> component \<Rightarrow> component" where
  "handleMapClick lat lng s = s\<lparr> destinationPosition := Some (lat, lng) \<rparr>"

definition resetDestination :: "component \<Rightarrow> component" where
  "resetDestination s =
     s\<lparr> destinationPosition := None, distanceMeters := None,
        isNearDestination := False, lastNotificationTime := 0 \<rparr>"

definition toggleNotifications :: "component \<Rightarrow> component" where
  "toggleNotifications s = s\<lparr> notificationsEnabled := \<not> notificationsEnabled s \<rparr>"

definition handleDistanceChange :: "real \<Rightarrow> component \<Rightarrow> component" where
  "handleDistanceChange distance s =
     s\<lparr> selectedDistance := distance, lastNotificationTime := 0 \<rparr>"

text \<open>The \<open>onClick\<close> of the "I'm up (5 min)" button.\<close>

definition imUpClick :: "nat \<Rightarrow> component \<Rightarrow> component" where
  "imUpClick now s = s\<lparr> lastNotificationTime := now + 300000 \<rparr>"

text \<open>
  The callback of the 30 s interval, on the values it closed over. It makes no use of
  \<open>lastNotificationTime\<close>.
\<close>

definition notify_tick ::
  "(latlng \<Rightarrow> latlng \<Rightarrow> real) \<Rightarrow> nat \<Rightarrow> latlng option \<Rightarrow> latlng option \<Rightarrow> real
   \<Rightarrow> browser \<Rightarrow> browser" where
  "notify_tick distanceTo now userPos destPos km w =
     (case userPos of
        None \<Rightarrow> w
      | Some user \<Rightarrow>
         (case destPos of
            None \<Rightarrow> w
          | Some destination \<Rightarrow>
             (let distance = distanceTo user destination
              in if distance \<le> km * 1000
                 then (let w1 = sendNotification now km w
                       in w1\<lparr> cells := (cells w1)\<lparr> lastNotificationTime := now \<rparr> \<rparr>)
                 else w)))"

text \<open>
  The callback of the 1 s countdown interval: \<open>Math.ceil((last - Date.now()) / 1000)\<close>,
  the ceiling written with integer division.
\<close>

definition countdown_tick :: "nat \<Rightarrow> nat \<Rightarrow> component \<Rightarrow> component" where
  "countdown_tick now lastTime s =
     (let remaining = - ((int now - int lastTime) div 1000)
      in if remaining > 0 then s\<lparr> countdownSeconds := nat remaining \<rparr>
         else s\<lparr> countdownSeconds := 0 \<rparr>)"

subsection \<open>Steps of the component\<close>

text \<open>
  A handler stores new cells; React renders again when a cell changed and commits the
  render. A position cell holds an array, compared by reference: storing a position is
  always a change (\<open>fresh\<close>), even with the same coordinates.
\<close>

definition rerender ::
  "(latlng \<Rightarrow> latlng \<Rightarrow> real) \<Rightarrow> nat \<Rightarrow> bool \<Rightarrow> component \<Rightarrow> browser \<Rightarrow> browser" where
  "rerender distanceTo now fresh s' w =
     (let s = cells w;
          depsCh = (fresh \<or> userPosition s' \<noteq> userPosition s
                      \<or> destinationPosition s' \<noteq> destinationPosition s
                      \<or> selectedDistance s' \<noteq> selectedDistance s
                      \<or> notificationsEnabled s' \<noteq> notificationsEnabled s);
          lastCh = (lastNotificationTime s' \<noteq> lastNotificationTime s)
      in commit distanceTo now depsCh lastCh (w\<lparr> cells := s' \<rparr>))"

definition reschedule :: "timer_id \<Rightarrow> timer \<Rightarrow> (timer_id \<times> timer) list \<Rightarrow> (timer_id \<times> timer) list" where
  "reschedule i t ts = map (\<lambda>p. if fst p = i then (i, t) else p) ts"

text \<open>
  A tick of the interval with handle \<open>i\<close>. An interval does not tick before it is due,
  and is due again one period after a tick.
\<close>

definition fire_timer ::
  "(latlng \<Rightarrow> latlng \<Rightarrow> real) \<Rightarrow> nat \<Rightarrow> timer_id \<Rightarrow> browser \<Rightarrow> browser" where
  "fire_timer distanceTo now i w =
     (case map_of (timers w) i of
        None \<Rightarrow> w
      | Some (NotifyTimer due userPos destPos km) \<Rightarrow>
          if now < due then w
          else (let w1 = w\<lparr> timers := reschedule i (NotifyTimer (now + 30000) userPos destPos km)
                                        (timers w) \<rparr>;
                    w2 = notify_tick distanceTo now userPos destPos km w1
                in commit distanceTo now False
                     (lastNotificationTime (cells w2) \<noteq> lastNotificationTime (cells w)) w2)
      | Some (CountdownTimer due lastTime) \<Rightarrow>
          if now < due then w
          else w\<lparr> timers := reschedule i (CountdownTimer (now + 1000) lastTime) (timers w),
                  cells := countdown_tick now lastTime (cells w) \<rparr>)"

text \<open>Unmounting runs the cleanup of every effect that returned one.\<close>

definition unmount :: "browser \<Rightarrow> browser" where
  "unmount w = (countdown_cleanup (interval_cleanup (geolocation_cleanup w)))\<lparr> mounted := False \<rparr>"

text \<open>
  What can happen to a mounted component. The Reset button is rendered only with a
  destination; the "I'm up" button only with a destination, notifications on and
  \<open>countdownSeconds = 0\<close>; the watch calls back only while it is active. The answer to
  \<open>Notification.requestPermission()\<close>, or a change in the browser's settings, arrives
  as \<open>PermissionChange\<close>.
\<close>

datatype event =
  PositionFix real real
| PositionError string
| MapClick real real
| ResetClick
| ToggleClick
| SelectDistance real
| ImUpClick
| TimerFire timer_id
| PermissionChange permission
| Unmount

fun handle :: "(latlng \<Rightarrow> latlng \<Rightarrow> real) \<Rightarrow> nat \<Rightarrow> event \<Rightarrow> browser \<Rightarrow> browser" where
  "handle distanceTo now (PositionFix latitude longitude) w =
     (if watching w then rerender distanceTo now True (watchSuccess latitude longitude (cells w)) w
      else w)"
| "handle distanceTo now (PositionError message) w =
     (if watching w then w\<lparr> cells := watchError message (cells w) \<rparr> else w)"
| "handle distanceTo now (MapClick lat lng) w =
     rerender distanceTo now True (handleMapClick lat lng (cells w)) w"
| "handle distanceTo now ResetClick w =
     (if destinationPosition (cells w) \<noteq> None
      then rerender distanceTo now False (resetDestination (cells w)) w else w)"
| "handle distanceTo now ToggleClick w =
     rerender distanceTo now False (toggleNotifications (cells w)) w"
| "handle distanceTo now (SelectDistance km) w =
     rerender distanceTo now False (handleDistanceChange km (cells w)) w"
| "handle distanceTo now ImUpClick w =
     (if destinationPosition (cells w) \<noteq> None \<and> notificationsEnabled (cells w)
         \<and> countdownSeconds (cells w) = 0
      then rerender distanceTo now False (imUpClick now (cells w)) w else w)"
| "handle distanceTo now (TimerFire i) w = fire_timer distanceTo now i w"
| "handle distanceTo now (PermissionChange p) w =
     (case permission w of None \<Rightarrow> w | Some q \<Rightarrow> w\<lparr> permission := Some p \<rparr>)"
| "handle distanceTo now Unmount w = unmount w"

definition step :: "(latlng \<Rightarrow> latlng \<Rightarrow> real) \<Rightarrow> nat \<Rightarrow> event \<Rightarrow> browser \<Rightarrow> browser" where
  "step distanceTo now ev w = (if mounted w then handle distanceTo now ev w else w)"

text \<open>Mounting: the first render, after which every effect runs once.\<close>

definition mount :: "(latlng \<Rightarrow> latlng \<Rightarrow> real) \<Rightarrow> nat \<Rightarrow> bool \<Rightarrow> permission option \<Rightarrow> browser" where
  "mount distanceTo now geo perm =
     commit distanceTo now True True
       (geolocation_effect
          \<lparr> cells = initial_component, mounted = True, geoSupported = geo, watching = False,
            permission = perm, timers = [], nextTimer = 1, intervalCleanup = None,
            countdownCleanup = None, delivered = [] \<rparr>)"

text \<open>A history: events with the time at which each is handled.\<close>

fun run :: "(latlng \<Rightarrow> latlng \<Rightarrow> real) \<Rightarrow> (nat \<times> event) list \<Rightarrow> browser \<Rightarrow> browser" where
  "run distanceTo [] w = w"
| "run distanceTo ((now, ev) # evs) w = run distanceTo evs (step distanceTo now ev w)"

subsection \<open>Invariants of the reachable states\<close>

text \<open>
  \<open>derived_ok\<close>: the two derived cells agree with the positions and the threshold.
  \<open>absent_ok\<close> is its part for an absent point, which the distance effect relies on
  (it returns early and writes nothing). \<open>timers_owned\<close>: every running interval is the
  one some cleanup closure will clear. \<open>component_inv\<close> adds that a countdown interval
  runs only under a positive \<open>lastNotificationTime\<close>, that a watch presupposes
  geolocation, and that an unmounted component holds no interval and no watch.
\<close>

definition derived_ok :: "(latlng \<Rightarrow> latlng \<Rightarrow> real) \<Rightarrow> component \<Rightarrow> bool" where
  "derived_ok distanceTo s =
     (case userPosition s of
        None \<Rightarrow> distanceMeters s = None \<and> \<not> isNearDestination s
      | Some user \<Rightarrow>
         (case destinationPosition s of
            None \<Rightarrow> distanceMeters s = None \<and> \<not> isNearDestination s
          | Some destination \<Rightarrow>
              distanceMeters s = Some (distanceTo user destination)
              \<and> isNearDestination s = (distanceTo user destination \<le> selectedDistance s * 1000)))"

definition absent_ok :: "component \<Rightarrow> bool" where
  "absent_ok s =
     (if userPosition s = None \<or> destinationPosition s = None
      then distanceMeters s = None \<and> \<not> isNearDestination s else True)"

definition timers_owned :: "browser \<Rightarrow> bool" where
  "timers_owned w =
     list_all (\<lambda>p. intervalCleanup w = Some (fst p) \<or> countdownCleanup w = Some (fst p)) (timers w)"

definition component_inv :: "(latlng \<Rightarrow> latlng \<Rightarrow> real) \<Rightarrow> browser \<Rightarrow> bool" where
  "component_inv distanceTo w =
     (derived_ok distanceTo (cells w) \<and> timers_owned w
      \<and> (countdownCleanup w = None \<or> 0 < lastNotificationTime (cells w))
      \<and> (geoSupported w \<or> \<not> watching w)
      \<and> (mounted w \<or> (timers w = [] \<and> \<not> watching w)))"

text \<open>
  When the distance effect sends a notification, the conditions read off its source:
  both positions present, notifications on, within the threshold, and at least 30000 ms
  since \<open>lastNotificationTime\<close>.
\<close>

definition distance_effect_fires :: "(latlng \<Rightarrow> latlng \<Rightarrow> real) \<Rightarrow> nat \<Rightarrow> component \<Rightarrow> bool" where
  "distance_effect_fires distanceTo now s =
     (case userPosition s of
        None \<Rightarrow> False
      | Some user \<Rightarrow>
         (case destinationPosition s of
            None \<Rightarrow> False
          | Some destination \<Rightarrow>
              notificationsEnabled s
              \<and> distanceTo user destination \<le> selectedDistance s * 1000
              \<and> int now - int (lastNotificationTime s) \<ge> 30000))"

subsection \<open>The specification's functions, and sample inputs\<close>

text \<open>
  \<open>evaluateProximity\<close> as the specification words it: no distance and not near when a
  point is absent, otherwise the distance and its comparison with the threshold. The
  component has no function of this name; it is compared below with what the distance
  effect and \<open>resetDestination\<close> leave in the state cells.
\<close>

definition evaluateProximity ::
  "(latlng \<Rightarrow> latlng \<Rightarrow> real) \<Rightarrow> latlng option \<Rightarrow> latlng option \<Rightarrow> real \<Rightarrow> real option \<times> bool" where
  "evaluateProximity computeDistance current destination thresholdKm =
     (case current of
        None \<Rightarrow> (None, False)
      | Some c \<Rightarrow>
         (case destination of
            None \<Rightarrow> (None, False)
          | Some t \<Rightarrow> (Some (computeDistance c t), computeDistance c t \<le> thresholdKm * 1000)))"

text \<open>The specification's invariant on \<open>isNear\<close>, on the state cells.\<close>

definition near_matches :: "component \<Rightarrow> bool" where
  "near_matches s =
     (isNearDestination s =
        (case distanceMeters s of None \<Rightarrow> False | Some m \<Rightarrow> m \<le> selectedDistance s * 1000))"

text \<open>
  A sample run: a distance function that puts the user 1200 m from the destination, a
  first fix, then a click on the map. The notification of 1001000 is the one the
  distance effect sends when the destination appears.
\<close>

definition sample_distance :: "latlng \<Rightarrow> latlng \<Rightarrow> real" where
  "sample_distance a b = 1200"

definition sample_history :: "(nat \<times> event) list" where
  "sample_history =
     [(1000000, PositionFix 18.5 73.86), (1001000, MapClick 18.51 73.86)]"

definition sample_browser :: browser where
  "sample_browser =
     run sample_distance sample_history (mount sample_distance 999000 True (Some Granted))"

text \<open>The sample run continued: the "I'm up" click, then the first countdown tick.\<close>

definition snooze_history :: "(nat \<times> event) list" where
  "snooze_history = sample_history @ [(1010000, ImUpClick), (1011000, TimerFire 2)]"

subsection \<open>The cooldown along a history\<close>










text \<open>The sample state one countdown tick after the "I'm up" click, and position updates.\<close>

definition snoozed_browser :: browser where
  "snoozed_browser =
     run sample_distance snooze_history (mount sample_distance 999000 True (Some Granted))"

definition position_fix :: "event \<Rightarrow> bool" where
  "position_fix ev = (case ev of PositionFix latitude longitude \<Rightarrow> True | _ \<Rightarrow> False)"

subsection \<open>The distance of the specification\<close>

text \<open>
  Modelled from the spec: \<open>computeDistance\<close> is \<open>L.LatLng.distanceTo\<close> of the Leaflet
  library, which is not among the sources of this repository. The specification describes
  it as the haversine great-circle distance on a sphere of radius about 6371000 m;
  this is that formula over the reals, on points given in degrees (rounding of the
  floating-point operations is not modelled).
\<close>

definition earthRadius :: real where
  "earthRadius = 6371000"

definition computeDistance :: "latlng \<Rightarrow> latlng \<Rightarrow> real" where
  "computeDistance a b =
     (let rad = pi / 180;
          lat1 = fst a * rad;
          lat2 = fst b * rad;
          sinDLat = sin ((fst b - fst a) * rad / 2);
          sinDLon = sin ((snd b - snd a) * rad / 2);
          h = sinDLat * sinDLat + cos lat1 * cos lat2 * sinDLon * sinDLon
      in 2 * earthRadius * arcsin (sqrt h))"

section \<open>Lemmas\<close>

subsection \<open>Committing a render terminates\<close>

text \<open>
  A second round of effects follows only a notification of the distance effect, which
  sets \<open>lastNotificationTime\<close> to the present time; the cooldown then keeps the distance
  effect from sending again, so there is no third round.
\<close>

lemma last_countdown_effect:
  "lastNotificationTime (cells (countdown_effect now s w)) = lastNotificationTime (cells w)"
  by (simp add: countdown_effect_def setInterval_def)

lemma last_interval_effect:
  "lastNotificationTime (cells (interval_effect now s w)) = lastNotificationTime (cells w)"
  by (simp add: interval_effect_def setInterval_def split: option.splits)

lemma cells_interval_cleanup: "cells (interval_cleanup w) = cells w"
  by (simp add: interval_cleanup_def split: option.splits)

lemma cells_countdown_cleanup: "cells (countdown_cleanup w) = cells w"
  by (simp add: countdown_cleanup_def split: option.splits)

lemma cells_sendNotification: "cells (sendNotification now km w) = cells w"
  by (simp add: sendNotification_def)

lemma last_distance_effect:
  "lastNotificationTime (cells (distance_effect distanceTo now s w)) \<noteq> lastNotificationTime (cells w)
   \<Longrightarrow> lastNotificationTime (cells (distance_effect distanceTo now s w)) = now
       \<and> int now - int (lastNotificationTime s) \<ge> 30000"
  by (auto simp add: distance_effect_def Let_def cells_sendNotification
           split: option.splits if_splits)

lemma last_run_effects:
  "lastNotificationTime (cells (run_effects distanceTo now depsCh lastCh w)) \<noteq> lastNotificationTime (cells w)
   \<Longrightarrow> lastNotificationTime (cells (run_effects distanceTo now depsCh lastCh w)) = now
       \<and> int now - int (lastNotificationTime (cells w)) \<ge> 30000"
proof -
  define v where "v = (if lastCh then countdown_cleanup (if depsCh then interval_cleanup w else w)
                       else (if depsCh then interval_cleanup w else w))"
  have c: "cells v = cells w"
    by (simp add: v_def cells_interval_cleanup cells_countdown_cleanup)
  have r: "lastNotificationTime (cells (run_effects distanceTo now depsCh lastCh w))
         = lastNotificationTime (cells (distance_effect distanceTo now (cells w) v))"
    by (simp add: run_effects_def Let_def v_def last_countdown_effect last_interval_effect)
  assume "lastNotificationTime (cells (run_effects distanceTo now depsCh lastCh w)) \<noteq> lastNotificationTime (cells w)"
  with r c have "lastNotificationTime (cells (distance_effect distanceTo now (cells w) v)) \<noteq> lastNotificationTime (cells v)"
    by simp
  from last_distance_effect [OF this] r show ?thesis
    by simp
qed

termination commit
proof (relation "measure (\<lambda>(distanceTo, now, depsCh, lastCh, w).
          if int now - int (lastNotificationTime (cells w)) \<ge> 30000 then 1 else 0)")
  show "wf (measure (\<lambda>(distanceTo, now, depsCh, lastCh, w).
          if int now - int (lastNotificationTime (cells w)) \<ge> 30000 then 1 else 0))"
    by simp
next
  fix distanceTo :: "latlng \<Rightarrow> latlng \<Rightarrow> real" and now depsCh lastCh w w'
  assume "\<not> (\<not> depsCh \<and> \<not> lastCh)"
    and w': "w' = run_effects distanceTo now depsCh lastCh w"
    and ch: "lastNotificationTime (cells w') \<noteq> lastNotificationTime (cells w)"
  from last_run_effects [of distanceTo now depsCh lastCh w] ch w'
  have "lastNotificationTime (cells w') = now"
    and "int now - int (lastNotificationTime (cells w)) \<ge> 30000"
    by simp_all
  then show "((distanceTo, now, False, True, w'), (distanceTo, now, depsCh, lastCh, w))
      \<in> measure (\<lambda>(distanceTo, now, depsCh, lastCh, w).
          if int now - int (lastNotificationTime (cells w)) \<ge> 30000 then 1 else 0)"
    by simp
qed

declare commit.simps [simp del]

subsection \<open>The invariant is kept\<close>

lemma derived_absent: "derived_ok distanceTo s \<Longrightarrow> absent_ok s"
  by (auto simp add: derived_ok_def absent_ok_def split: option.splits)

lemma commit_idle: "commit distanceTo now False False w = w"
  by (simp add: commit.simps)

lemma commit_unfold:
  assumes "depsCh \<or> lastCh"
  shows "commit distanceTo now depsCh lastCh w =
     (let w' = run_effects distanceTo now depsCh lastCh w
      in if lastNotificationTime (cells w') \<noteq> lastNotificationTime (cells w)
         then run_effects distanceTo now False True w' else w')"
proof -
  define w' where "w' = run_effects distanceTo now depsCh lastCh w"
  define w'' where "w'' = run_effects distanceTo now False True w'"
  have second: "commit distanceTo now False True w' = w''"
    if ch: "lastNotificationTime (cells w') \<noteq> lastNotificationTime (cells w)"
  proof -
    from last_run_effects [of distanceTo now depsCh lastCh w] ch
    have now: "lastNotificationTime (cells w') = now"
      by (simp add: w'_def)
    have "lastNotificationTime (cells w'') = lastNotificationTime (cells w')"
    proof (rule ccontr)
      assume "lastNotificationTime (cells w'') \<noteq> lastNotificationTime (cells w')"
      with last_run_effects [of distanceTo now False True w'] now show False
        by (simp add: w''_def)
    qed
    then show ?thesis
      by (subst commit.simps) (simp add: w''_def Let_def)
  qed
  show ?thesis
  proof (cases "lastNotificationTime (cells w') \<noteq> lastNotificationTime (cells w)")
    case True
    have "commit distanceTo now depsCh lastCh w = commit distanceTo now False True w'"
      using assms True by (subst commit.simps) (auto simp add: Let_def w'_def)
    with second [OF True] True show ?thesis
      by (simp add: Let_def w'_def w''_def)
  next
    case False
    have "commit distanceTo now depsCh lastCh w = w'"
      using assms False by (subst commit.simps) (auto simp add: Let_def w'_def)
    with False show ?thesis
      by (simp add: Let_def w'_def)
  qed
qed

lemma distance_effect_frame:
  "mounted (distance_effect d now s w) = mounted w"
  "geoSupported (distance_effect d now s w) = geoSupported w"
  "watching (distance_effect d now s w) = watching w"
  "permission (distance_effect d now s w) = permission w"
  "timers (distance_effect d now s w) = timers w"
  "nextTimer (distance_effect d now s w) = nextTimer w"
  "intervalCleanup (distance_effect d now s w) = intervalCleanup w"
  "countdownCleanup (distance_effect d now s w) = countdownCleanup w"
  by (simp_all add: distance_effect_def Let_def sendNotification_def split: option.splits)

lemma distance_effect_cells_frame:
  "userPosition (cells (distance_effect d now s w)) = userPosition (cells w)"
  "destinationPosition (cells (distance_effect d now s w)) = destinationPosition (cells w)"
  "selectedDistance (cells (distance_effect d now s w)) = selectedDistance (cells w)"
  "notificationsEnabled (cells (distance_effect d now s w)) = notificationsEnabled (cells w)"
  "notificationInterval (cells (distance_effect d now s w)) = notificationInterval (cells w)"
  "countdownSeconds (cells (distance_effect d now s w)) = countdownSeconds (cells w)"
  "geoError (cells (distance_effect d now s w)) = geoError (cells w)"
  by (simp_all add: distance_effect_def Let_def sendNotification_def split: option.splits)

lemma distance_effect_derived:
  "absent_ok (cells w) \<Longrightarrow> derived_ok d (cells (distance_effect d now (cells w) w))"
  by (auto simp add: distance_effect_def Let_def sendNotification_def derived_ok_def absent_ok_def
      split: option.splits)

lemma run_effects_frame:
  "mounted (run_effects d now depsCh lastCh w) = mounted w"
  "geoSupported (run_effects d now depsCh lastCh w) = geoSupported w"
  "watching (run_effects d now depsCh lastCh w) = watching w"
  "permission (run_effects d now depsCh lastCh w) = permission w"
  by (simp_all add: run_effects_def Let_def distance_effect_frame interval_effect_def
        countdown_effect_def interval_cleanup_def countdown_cleanup_def setInterval_def
        split: option.splits)

lemma run_effects_cells_frame:
  "userPosition (cells (run_effects d now depsCh lastCh w)) = userPosition (cells w)"
  "destinationPosition (cells (run_effects d now depsCh lastCh w)) = destinationPosition (cells w)"
  "selectedDistance (cells (run_effects d now depsCh lastCh w)) = selectedDistance (cells w)"
  "notificationsEnabled (cells (run_effects d now depsCh lastCh w)) = notificationsEnabled (cells w)"
  by (simp_all add: run_effects_def Let_def distance_effect_cells_frame interval_effect_def
        countdown_effect_def interval_cleanup_def countdown_cleanup_def setInterval_def
        split: option.splits)

lemma derived_interval_effect:
  "derived_ok d (cells (interval_effect now s w)) = derived_ok d (cells w)"
  by (simp add: interval_effect_def setInterval_def derived_ok_def split: option.splits)

lemma derived_countdown_effect:
  "derived_ok d (cells (countdown_effect now s w)) = derived_ok d (cells w)"
  by (simp add: countdown_effect_def setInterval_def derived_ok_def split: option.splits)

lemma run_effects_derived:
  "absent_ok (cells w) \<Longrightarrow> derived_ok d (cells (run_effects d now depsCh lastCh w))"
proof -
  define v where "v = (if lastCh then countdown_cleanup (if depsCh then interval_cleanup w else w)
                       else (if depsCh then interval_cleanup w else w))"
  have c: "cells v = cells w"
    by (simp add: v_def cells_interval_cleanup cells_countdown_cleanup)
  assume "absent_ok (cells w)"
  with c distance_effect_derived [of v d now]
  have "derived_ok d (cells (distance_effect d now (cells w) v))"
    by simp
  moreover have "derived_ok d (cells (run_effects d now depsCh lastCh w))
       = derived_ok d (cells (distance_effect d now (cells w) v))"
    by (simp add: run_effects_def Let_def v_def derived_interval_effect derived_countdown_effect)
  ultimately show ?thesis
    by simp
qed


lemma interval_cleanup_owned:
  "timers_owned w \<Longrightarrow>
   list_all (\<lambda>p. countdownCleanup w = Some (fst p)) (timers (interval_cleanup w))
   \<and> intervalCleanup (interval_cleanup w) = None
   \<and> countdownCleanup (interval_cleanup w) = countdownCleanup w"
  by (auto simp add: timers_owned_def interval_cleanup_def clearInterval_def list_all_iff
      split: option.splits)

lemma countdown_cleanup_owned:
  "timers_owned w \<Longrightarrow>
   list_all (\<lambda>p. intervalCleanup w = Some (fst p)) (timers (countdown_cleanup w))
   \<and> countdownCleanup (countdown_cleanup w) = None
   \<and> intervalCleanup (countdown_cleanup w) = intervalCleanup w"
  by (auto simp add: timers_owned_def countdown_cleanup_def clearInterval_def list_all_iff
      split: option.splits)

lemma run_effects_owned:
  "timers_owned w \<Longrightarrow> timers_owned (run_effects d now depsCh lastCh w)"
  by (auto simp add: run_effects_def Let_def timers_owned_def distance_effect_frame
        interval_effect_def countdown_effect_def interval_cleanup_def countdown_cleanup_def
        setInterval_def clearInterval_def list_all_iff
      split: option.splits)

lemma run_effects_countdown_rerun:
  "countdownCleanup (run_effects d now depsCh True w) = None
   \<or> 0 < lastNotificationTime (cells (run_effects d now depsCh True w))"
  by (auto simp add: run_effects_def Let_def distance_effect_def sendNotification_def
        interval_effect_def countdown_effect_def interval_cleanup_def countdown_cleanup_def
        setInterval_def
      split: option.splits)

lemma run_effects_countdown_kept:
  "countdownCleanup (run_effects d now depsCh False w) = countdownCleanup w"
  by (simp add: run_effects_def Let_def distance_effect_frame
        interval_effect_def interval_cleanup_def setInterval_def
      split: option.splits)

lemma commit_frame:
  "mounted (commit d now depsCh lastCh w) = mounted w"
  "geoSupported (commit d now depsCh lastCh w) = geoSupported w"
  "watching (commit d now depsCh lastCh w) = watching w"
  "permission (commit d now depsCh lastCh w) = permission w"
  by (cases "depsCh \<or> lastCh"; simp add: commit_unfold commit_idle Let_def run_effects_frame)+

lemma commit_cells_frame:
  "userPosition (cells (commit d now depsCh lastCh w)) = userPosition (cells w)"
  "destinationPosition (cells (commit d now depsCh lastCh w)) = destinationPosition (cells w)"
  "selectedDistance (cells (commit d now depsCh lastCh w)) = selectedDistance (cells w)"
  "notificationsEnabled (cells (commit d now depsCh lastCh w)) = notificationsEnabled (cells w)"
  by (cases "depsCh \<or> lastCh"; simp add: commit_unfold commit_idle Let_def run_effects_cells_frame)+

lemma commit_derived:
  assumes "absent_ok (cells w)" and "depsCh \<or> lastCh \<or> derived_ok d (cells w)"
  shows "derived_ok d (cells (commit d now depsCh lastCh w))"
proof (cases "depsCh \<or> lastCh")
  case True
  have first: "derived_ok d (cells (run_effects d now depsCh lastCh w))"
    using assms(1) by (rule run_effects_derived)
  then have "derived_ok d (cells (run_effects d now False True (run_effects d now depsCh lastCh w)))"
    by (intro run_effects_derived derived_absent)
  with first True show ?thesis
    by (simp add: commit_unfold Let_def)
next
  case False
  with assms(2) show ?thesis
    by (simp add: commit_idle)
qed

lemma commit_owned:
  assumes "timers_owned w"
  shows "timers_owned (commit d now depsCh lastCh w)"
proof (cases "depsCh \<or> lastCh")
  case True
  with assms show ?thesis
    by (simp add: commit_unfold Let_def run_effects_owned)
next
  case False
  with assms show ?thesis
    by (simp add: commit_idle)
qed

lemma commit_countdown:
  assumes "lastCh \<or> countdownCleanup w = None \<or> 0 < lastNotificationTime (cells w)"
  shows "countdownCleanup (commit d now depsCh lastCh w) = None
         \<or> 0 < lastNotificationTime (cells (commit d now depsCh lastCh w))"
proof (cases "depsCh \<or> lastCh")
  case False
  with assms show ?thesis
    by (simp add: commit_idle)
next
  case True
  define w' where "w' = run_effects d now depsCh lastCh w"
  show ?thesis
  proof (cases "lastNotificationTime (cells w') = lastNotificationTime (cells w)")
    case same: True
    have res: "commit d now depsCh lastCh w = w'"
      using True same by (simp add: commit_unfold Let_def w'_def)
    show ?thesis
    proof (cases lastCh)
      case True
      with run_effects_countdown_rerun [of d now depsCh w] res show ?thesis
        by (simp add: w'_def)
    next
      case False
      with assms same run_effects_countdown_kept [of d now depsCh w] res show ?thesis
        by (simp add: w'_def)
    qed
  next
    case False
    then have "commit d now depsCh lastCh w = run_effects d now False True w'"
      using True by (simp add: commit_unfold Let_def w'_def)
    with run_effects_countdown_rerun [of d now False w'] show ?thesis
      by simp
  qed
qed

lemma rerender_inv:
  assumes inv: "component_inv d w" and m: "mounted w"
    and ab: "absent_ok s'"
    and ch: "derived_ok d s' \<or> fresh \<or> userPosition s' \<noteq> userPosition (cells w)
             \<or> destinationPosition s' \<noteq> destinationPosition (cells w)
             \<or> selectedDistance s' \<noteq> selectedDistance (cells w)
             \<or> notificationsEnabled s' \<noteq> notificationsEnabled (cells w)
             \<or> lastNotificationTime s' \<noteq> lastNotificationTime (cells w)"
  shows "component_inv d (rerender d now fresh s' w)"
proof -
  define depsCh where "depsCh = (fresh \<or> userPosition s' \<noteq> userPosition (cells w)
                      \<or> destinationPosition s' \<noteq> destinationPosition (cells w)
                      \<or> selectedDistance s' \<noteq> selectedDistance (cells w)
                      \<or> notificationsEnabled s' \<noteq> notificationsEnabled (cells w))"
  define lastCh where "lastCh = (lastNotificationTime s' \<noteq> lastNotificationTime (cells w))"
  define v where "v = w\<lparr> cells := s' \<rparr>"
  have r: "rerender d now fresh s' w = commit d now depsCh lastCh v"
    by (simp add: rerender_def Let_def depsCh_def lastCh_def v_def)
  have 1: "derived_ok d (cells (commit d now depsCh lastCh v))"
    using ab ch by (intro commit_derived) (auto simp add: v_def depsCh_def lastCh_def)
  have 2: "timers_owned (commit d now depsCh lastCh v)"
    using inv by (intro commit_owned) (simp add: component_inv_def timers_owned_def v_def)
  have 3: "countdownCleanup (commit d now depsCh lastCh v) = None
           \<or> 0 < lastNotificationTime (cells (commit d now depsCh lastCh v))"
    using inv by (intro commit_countdown) (auto simp add: component_inv_def v_def lastCh_def)
  from inv m 1 2 3 show ?thesis
    by (simp add: r component_inv_def commit_frame) (simp add: v_def)
qed

lemma list_all_reschedule:
  "list_all (\<lambda>p. P (fst p)) ts \<Longrightarrow> list_all (\<lambda>p. P (fst p)) (reschedule i t ts)"
  by (induction ts) (auto simp add: reschedule_def)

lemma reschedule_Nil: "(reschedule i t ts = []) = (ts = [])"
  by (simp add: reschedule_def)

lemma derived_last: "derived_ok d (s\<lparr> lastNotificationTime := x \<rparr>) = derived_ok d s"
  by (simp add: derived_ok_def split: option.splits)

lemma derived_countdown_tick: "derived_ok d (countdown_tick now l s) = derived_ok d s"
  by (simp add: derived_ok_def countdown_tick_def Let_def split: option.splits)

lemma last_countdown_tick:
  "lastNotificationTime (countdown_tick now l s) = lastNotificationTime s"
  by (simp add: countdown_tick_def Let_def)

lemma notify_tick_frame:
  "mounted (notify_tick d now u p km w) = mounted w"
  "geoSupported (notify_tick d now u p km w) = geoSupported w"
  "watching (notify_tick d now u p km w) = watching w"
  "timers (notify_tick d now u p km w) = timers w"
  "intervalCleanup (notify_tick d now u p km w) = intervalCleanup w"
  "countdownCleanup (notify_tick d now u p km w) = countdownCleanup w"
  "derived_ok d (cells (notify_tick d now u p km w)) = derived_ok d (cells w)"
  by (simp_all add: notify_tick_def Let_def sendNotification_def derived_last split: option.splits)

lemma fire_timer_inv:
  assumes inv: "component_inv d w" and m: "mounted w"
  shows "component_inv d (fire_timer d now i w)"
proof (cases "map_of (timers w) i")
  case None
  with inv show ?thesis
    by (simp add: fire_timer_def)
next
  case (Some t)
  show ?thesis
  proof (cases t)
    case (NotifyTimer due u p km)
    show ?thesis
    proof (cases "now < due")
      case True
      with inv Some NotifyTimer show ?thesis
        by (simp add: fire_timer_def)
    next
      case False
      define w1 where "w1 = w\<lparr> timers := reschedule i (NotifyTimer (now + 30000) u p km) (timers w) \<rparr>"
      define w2 where "w2 = notify_tick d now u p km w1"
      define lastCh where "lastCh = (lastNotificationTime (cells w2) \<noteq> lastNotificationTime (cells w))"
      have r: "fire_timer d now i w = commit d now False lastCh w2"
        using Some NotifyTimer False
        by (simp add: fire_timer_def Let_def w1_def w2_def lastCh_def)
      have own1: "timers_owned w1"
        using inv list_all_reschedule
          [of "\<lambda>j. intervalCleanup w = Some j \<or> countdownCleanup w = Some j" "timers w"]
        by (simp add: component_inv_def timers_owned_def w1_def)
      have d2: "derived_ok d (cells w2)"
        using inv by (simp add: w2_def notify_tick_frame w1_def component_inv_def)
      have 1: "derived_ok d (cells (commit d now False lastCh w2))"
        using d2 by (intro commit_derived derived_absent) simp_all
      have 2: "timers_owned (commit d now False lastCh w2)"
        using own1 by (intro commit_owned) (simp add: timers_owned_def w2_def notify_tick_frame)
      have 3: "countdownCleanup (commit d now False lastCh w2) = None
           \<or> 0 < lastNotificationTime (cells (commit d now False lastCh w2))"
        using inv by (intro commit_countdown)
          (auto simp add: component_inv_def lastCh_def w2_def notify_tick_frame w1_def)
      from inv m 1 2 3 show ?thesis
        by (simp add: r component_inv_def commit_frame w2_def notify_tick_frame w1_def)
    qed
  next
    case (CountdownTimer due lastTime)
    show ?thesis
    proof (cases "now < due")
      case True
      with inv Some CountdownTimer show ?thesis
        by (simp add: fire_timer_def)
    next
      case False
      have "list_all (\<lambda>p. intervalCleanup w = Some (fst p) \<or> countdownCleanup w = Some (fst p))
              (reschedule i (CountdownTimer (now + 1000) lastTime) (timers w))"
        using inv list_all_reschedule
          [of "\<lambda>j. intervalCleanup w = Some j \<or> countdownCleanup w = Some j" "timers w"]
        by (simp add: component_inv_def timers_owned_def)
      with inv m Some CountdownTimer False show ?thesis
        by (simp add: fire_timer_def component_inv_def timers_owned_def derived_countdown_tick
              last_countdown_tick reschedule_Nil)
    qed
  qed
qed

lemma owned_cleared:
  "list_all (\<lambda>p. a = Some (fst p) \<or> b = Some (fst p)) ts \<Longrightarrow>
   (case b of None \<Rightarrow> (\<lambda>x. x) | Some j \<Rightarrow> clearInterval j)
     ((case a of None \<Rightarrow> (\<lambda>x. x) | Some i \<Rightarrow> clearInterval i) ts) = []"
  by (induction ts) (auto simp add: clearInterval_def split: option.splits)

lemma cleanups_released:
  "timers_owned w \<Longrightarrow> timers (countdown_cleanup (interval_cleanup w)) = []"
  using owned_cleared [of "intervalCleanup w" "countdownCleanup w" "timers w"]
  by (simp add: timers_owned_def interval_cleanup_def countdown_cleanup_def split: option.splits)

lemma unmount_released:
  assumes "timers_owned w"
  shows "timers (unmount w) = []" and "geoSupported w \<or> \<not> watching w \<Longrightarrow> \<not> watching (unmount w)"
    and "cells (unmount w) = cells w" and "\<not> mounted (unmount w)"
    and "intervalCleanup (unmount w) = None" and "countdownCleanup (unmount w) = None"
    and "geoSupported (unmount w) = geoSupported w"
proof -
  have "timers_owned (geolocation_cleanup w)"
    using assms by (simp add: timers_owned_def geolocation_cleanup_def)
  from cleanups_released [OF this] show "timers (unmount w) = []"
    by (simp add: unmount_def)
qed (auto simp add: unmount_def geolocation_cleanup_def interval_cleanup_def
        countdown_cleanup_def split: option.splits)

lemma unmount_inv:
  assumes "component_inv d w"
  shows "component_inv d (unmount w)"
  using assms unmount_released [of w]
  by (simp add: component_inv_def) (simp add: timers_owned_def)

lemma absent_ok_simps:
  "absent_ok (watchSuccess la lo s) = (destinationPosition s = None \<longrightarrow> distanceMeters s = None \<and> \<not> isNearDestination s)"
  "absent_ok (handleMapClick la lo s) = (userPosition s = None \<longrightarrow> distanceMeters s = None \<and> \<not> isNearDestination s)"
  "absent_ok (resetDestination s)"
  "absent_ok (toggleNotifications s) = absent_ok s"
  "absent_ok (handleDistanceChange km s) = absent_ok s"
  "absent_ok (imUpClick now s) = absent_ok s"
  by (auto simp add: absent_ok_def watchSuccess_def handleMapClick_def resetDestination_def
        toggleNotifications_def handleDistanceChange_def imUpClick_def)

lemma derived_geoError: "derived_ok d (s\<lparr> geoError := x \<rparr>) = derived_ok d s"
  by (simp add: derived_ok_def split: option.splits)

lemma handle_inv:
  assumes inv: "component_inv d w" and m: "mounted w"
  shows "component_inv d (handle d now ev w)"
proof (cases ev)
  case (PositionFix la lo)
  from inv have "absent_ok (watchSuccess la lo (cells w))"
    by (auto simp add: absent_ok_simps component_inv_def derived_ok_def split: option.splits)
  with inv m PositionFix show ?thesis
    by (simp add: rerender_inv)
next
  case (PositionError msg)
  with inv m show ?thesis
    by (auto simp add: component_inv_def timers_owned_def watchError_def derived_geoError)
next
  case (MapClick la lo)
  from inv have "absent_ok (handleMapClick la lo (cells w))"
    by (auto simp add: absent_ok_simps component_inv_def derived_ok_def split: option.splits)
  with inv m MapClick show ?thesis
    by (simp add: rerender_inv)
next
  case ResetClick
  show ?thesis
  proof (cases "destinationPosition (cells w)")
    case None
    with inv ResetClick show ?thesis by simp
  next
    case (Some p)
    have "destinationPosition (resetDestination (cells w)) \<noteq> destinationPosition (cells w)"
      using Some by (simp add: resetDestination_def)
    with inv m ResetClick Some show ?thesis
      by (simp add: rerender_inv absent_ok_simps)
  qed
next
  case ToggleClick
  have "notificationsEnabled (toggleNotifications (cells w)) \<noteq> notificationsEnabled (cells w)"
    by (simp add: toggleNotifications_def)
  moreover from inv derived_absent [of d "cells w"] have "absent_ok (toggleNotifications (cells w))"
    by (simp add: absent_ok_simps component_inv_def)
  ultimately show ?thesis
    using inv m ToggleClick by (simp add: rerender_inv)
next
  case (SelectDistance km)
  from inv derived_absent [of d "cells w"] have ab: "absent_ok (handleDistanceChange km (cells w))"
    by (simp add: absent_ok_simps component_inv_def)
  have "derived_ok d (handleDistanceChange km (cells w))
        \<or> selectedDistance (handleDistanceChange km (cells w)) \<noteq> selectedDistance (cells w)"
    using inv
    by (cases "km = selectedDistance (cells w)")
       (auto simp add: handleDistanceChange_def component_inv_def derived_ok_def split: option.splits)
  with inv m ab SelectDistance show ?thesis
    by (auto simp add: rerender_inv)
next
  case ImUpClick
  from inv have "derived_ok d (imUpClick now (cells w))"
    by (simp add: imUpClick_def derived_last component_inv_def)
  with inv m ImUpClick derived_absent [of d "imUpClick now (cells w)"] show ?thesis
    by (simp add: rerender_inv)
next
  case (TimerFire i)
  with inv m show ?thesis
    by (simp add: fire_timer_inv)
next
  case (PermissionChange p)
  with inv m show ?thesis
    by (auto simp add: component_inv_def timers_owned_def split: option.splits)
next
  case Unmount
  with inv show ?thesis
    by (simp add: unmount_inv)
qed

lemma step_inv: "component_inv d w \<Longrightarrow> component_inv d (step d now ev w)"
  by (simp add: step_def handle_inv)

lemma mount_inv: "component_inv d (mount d now geo perm)"
proof -
  define w0 where "w0 = geolocation_effect
          \<lparr> cells = initial_component, mounted = True, geoSupported = geo, watching = False,
            permission = perm, timers = [], nextTimer = 1, intervalCleanup = None,
            countdownCleanup = None, delivered = [] \<rparr>"
  have m: "mount d now geo perm = commit d now True True w0"
    by (simp add: mount_def w0_def)
  have 1: "derived_ok d (cells (commit d now True True w0))"
    by (intro commit_derived) (simp_all add: w0_def geolocation_effect_def absent_ok_def initial_component_def)
  have 2: "timers_owned (commit d now True True w0)"
    by (intro commit_owned) (simp add: w0_def geolocation_effect_def timers_owned_def)
  have 3: "countdownCleanup (commit d now True True w0) = None
           \<or> 0 < lastNotificationTime (cells (commit d now True True w0))"
    by (intro commit_countdown) simp
  from 1 2 3 show ?thesis
    by (simp add: m component_inv_def commit_frame) (simp add: w0_def geolocation_effect_def)
qed

lemma run_inv: "component_inv d w \<Longrightarrow> component_inv d (run d evs w)"
  by (induction evs arbitrary: w) (auto simp add: step_inv)

lemma reachable_inv: "component_inv d (run d evs (mount d now geo perm))"
  by (simp add: run_inv mount_inv)

lemma sendNotification_delivered:
  "permission v = permission w \<Longrightarrow> delivered v = delivered w \<Longrightarrow>
   delivered (sendNotification now km v) = delivered (sendNotification now km w)"
  by (simp add: sendNotification_def)

lemma distance_effect_delivered:
  "delivered (distance_effect d now s w) =
     (if distance_effect_fires d now s then delivered (sendNotification now (selectedDistance s) w)
      else delivered w)"
  by (simp add: distance_effect_def distance_effect_fires_def Let_def sendNotification_def
      split: option.splits)

lemma distance_effect_last:
  "lastNotificationTime (cells (distance_effect d now s w)) =
     (if distance_effect_fires d now s then now else lastNotificationTime (cells w))"
  by (simp add: distance_effect_def distance_effect_fires_def Let_def sendNotification_def
      split: option.splits)

lemma cleanup_delivered:
  "delivered (interval_cleanup w) = delivered w" "permission (interval_cleanup w) = permission w"
  "delivered (countdown_cleanup w) = delivered w" "permission (countdown_cleanup w) = permission w"
  by (simp_all add: interval_cleanup_def countdown_cleanup_def split: option.splits)

lemma effect_delivered:
  "delivered (interval_effect now s w) = delivered w"
  "delivered (countdown_effect now s w) = delivered w"
  by (simp_all add: interval_effect_def countdown_effect_def setInterval_def split: option.splits)

lemma run_effects_delivered:
  "delivered (run_effects d now depsCh lastCh w) =
     (if distance_effect_fires d now (cells w)
      then delivered (sendNotification now (selectedDistance (cells w)) w) else delivered w)"
proof -
  define v where "v = (if lastCh then countdown_cleanup (if depsCh then interval_cleanup w else w)
                       else (if depsCh then interval_cleanup w else w))"
  have v: "delivered v = delivered w" "permission v = permission w"
    by (simp_all add: v_def cleanup_delivered)
  have "delivered (run_effects d now depsCh lastCh w) = delivered (distance_effect d now (cells w) v)"
    by (simp add: run_effects_def Let_def v_def effect_delivered)
  with v sendNotification_delivered [of v w now "selectedDistance (cells w)"] show ?thesis
    by (simp add: distance_effect_delivered)
qed

lemma run_effects_last:
  "lastNotificationTime (cells (run_effects d now depsCh lastCh w)) =
     (if distance_effect_fires d now (cells w) then now else lastNotificationTime (cells w))"
proof -
  define v where "v = (if lastCh then countdown_cleanup (if depsCh then interval_cleanup w else w)
                       else (if depsCh then interval_cleanup w else w))"
  have v: "cells v = cells w"
    by (simp add: v_def cells_interval_cleanup cells_countdown_cleanup)
  have "lastNotificationTime (cells (run_effects d now depsCh lastCh w))
      = lastNotificationTime (cells (distance_effect d now (cells w) v))"
    by (simp add: run_effects_def Let_def v_def last_countdown_effect last_interval_effect)
  with v show ?thesis
    by (simp add: distance_effect_last)
qed

lemma fires_after_now:
  "lastNotificationTime s = now \<Longrightarrow> \<not> distance_effect_fires d now s"
  by (simp add: distance_effect_fires_def split: option.splits)

lemma commit_last:
  assumes "depsCh \<or> lastCh"
  shows "lastNotificationTime (cells (commit d now depsCh lastCh w)) =
     (if distance_effect_fires d now (cells w) then now else lastNotificationTime (cells w))"
proof -
  define w' where "w' = run_effects d now depsCh lastCh w"
  have l: "lastNotificationTime (cells w') =
     (if distance_effect_fires d now (cells w) then now else lastNotificationTime (cells w))"
    by (simp add: w'_def run_effects_last)
  show ?thesis
  proof (cases "lastNotificationTime (cells w') = lastNotificationTime (cells w)")
    case True
    with assms l show ?thesis
      by (simp add: commit_unfold Let_def w'_def [symmetric])
  next
    case False
    with l have now: "lastNotificationTime (cells w') = now"
      by (simp split: if_splits)
    then have "\<not> distance_effect_fires d now (cells w')"
      by (rule fires_after_now)
    with assms False l now show ?thesis
      by (simp add: commit_unfold Let_def w'_def [symmetric] run_effects_last)
  qed
qed

lemma commit_delivered:
  assumes "depsCh \<or> lastCh"
  shows "delivered (commit d now depsCh lastCh w) =
     (if distance_effect_fires d now (cells w)
      then delivered (sendNotification now (selectedDistance (cells w)) w) else delivered w)"
proof -
  define w' where "w' = run_effects d now depsCh lastCh w"
  have l: "lastNotificationTime (cells w') =
     (if distance_effect_fires d now (cells w) then now else lastNotificationTime (cells w))"
    by (simp add: w'_def run_effects_last)
  have dl: "delivered w' =
     (if distance_effect_fires d now (cells w)
      then delivered (sendNotification now (selectedDistance (cells w)) w) else delivered w)"
    by (simp add: w'_def run_effects_delivered)
  show ?thesis
  proof (cases "lastNotificationTime (cells w') = lastNotificationTime (cells w)")
    case True
    with assms dl show ?thesis
      by (simp add: commit_unfold Let_def w'_def [symmetric])
  next
    case False
    with l have now: "lastNotificationTime (cells w') = now"
      by (simp split: if_splits)
    then have "\<not> distance_effect_fires d now (cells w')"
      by (rule fires_after_now)
    with assms False dl show ?thesis
      by (simp add: commit_unfold Let_def w'_def [symmetric] run_effects_delivered)
  qed
qed

lemmas eval_simps = step_def rerender_def commit_unfold commit_idle run_effects_def
  distance_effect_def interval_effect_def interval_cleanup_def countdown_effect_def
  countdown_cleanup_def geolocation_effect_def geolocation_cleanup_def sendNotification_def
  setInterval_def clearInterval_def reschedule_def fire_timer_def notify_tick_def
  countdown_tick_def unmount_def mount_def initial_component_def watchSuccess_def
  watchError_def handleMapClick_def resetDestination_def toggleNotifications_def
  handleDistanceChange_def imUpClick_def Let_def sample_distance_def sample_history_def

lemma sample_state:
  "sample_browser =
     \<lparr> cells = \<lparr> userPosition = Some (18.5, 73.86), destinationPosition = Some (18.51, 73.86),
                 distanceMeters = Some 1200, geoError = None, selectedDistance = 5,
                 notificationsEnabled = True, notificationInterval = Some 1,
                 lastNotificationTime = 1001000, isNearDestination = True,
                 countdownSeconds = 0 \<rparr>,
       mounted = True, geoSupported = True, watching = True, permission = Some Granted,
       timers = [(1, NotifyTimer 1031000 (Some (18.5, 73.86)) (Some (18.51, 73.86)) 5)],
       nextTimer = 2, intervalCleanup = Some 1, countdownCleanup = None,
       delivered = [(1001000, 5)] \<rparr>"
  by (simp add: sample_browser_def eval_simps)

lemma rerender_commit:
  "rerender d now fresh s' w =
     commit d now
       (fresh \<or> userPosition s' \<noteq> userPosition (cells w)
          \<or> destinationPosition s' \<noteq> destinationPosition (cells w)
          \<or> selectedDistance s' \<noteq> selectedDistance (cells w)
          \<or> notificationsEnabled s' \<noteq> notificationsEnabled (cells w))
       (lastNotificationTime s' \<noteq> lastNotificationTime (cells w))
       (w\<lparr> cells := s' \<rparr>)"
  by (simp add: rerender_def Let_def)

lemma rerender_frame:
  "mounted (rerender d now fresh s' w) = mounted w"
  "geoSupported (rerender d now fresh s' w) = geoSupported w"
  "watching (rerender d now fresh s' w) = watching w"
  "permission (rerender d now fresh s' w) = permission w"
  "userPosition (cells (rerender d now fresh s' w)) = userPosition s'"
  "destinationPosition (cells (rerender d now fresh s' w)) = destinationPosition s'"
  "selectedDistance (cells (rerender d now fresh s' w)) = selectedDistance s'"
  "notificationsEnabled (cells (rerender d now fresh s' w)) = notificationsEnabled s'"
  by (simp_all add: rerender_commit commit_frame commit_cells_frame)

lemma commit_last_any:
  "lastNotificationTime (cells (commit d now depsCh lastCh w)) =
     (if (depsCh \<or> lastCh) \<and> distance_effect_fires d now (cells w) then now
      else lastNotificationTime (cells w))"
  by (cases "depsCh \<or> lastCh") (auto simp add: commit_last commit_idle)

lemma commit_delivered_any:
  "delivered (commit d now depsCh lastCh w) =
     (if (depsCh \<or> lastCh) \<and> distance_effect_fires d now (cells w)
      then delivered (sendNotification now (selectedDistance (cells w)) w) else delivered w)"
  by (cases "depsCh \<or> lastCh") (auto simp add: commit_delivered commit_idle)

lemma sin_half_swap:
  "sin ((y - x) * r / 2) * sin ((y - x) * r / 2)
   = sin ((x - y) * r / 2) * sin ((x - y) * r / 2)" for x y r :: real
proof -
  have "(y - x) * r / 2 = (- (x - y)) * r / 2"
    by (simp only: minus_diff_eq)
  also have "\<dots> = - ((x - y) * r / 2)"
    by (simp only: mult_minus_left minus_divide_left)
  finally have "sin ((y - x) * r / 2) = - sin ((x - y) * r / 2)"
    by (simp only: sin_minus)
  then show ?thesis
    by simp
qed

lemma owned_none:
  "timers_owned w \<Longrightarrow> intervalCleanup w = None \<Longrightarrow> countdownCleanup w = None \<Longrightarrow> timers w = []"
  by (cases "timers w") (simp_all add: timers_owned_def)

lemma run_effects_cleared:
  assumes "destinationPosition (cells v) = None" and "lastNotificationTime (cells v) = 0"
    and "lastCh \<or> countdownCleanup v = None"
  shows "intervalCleanup (run_effects d now True lastCh v) = None
       \<and> countdownCleanup (run_effects d now True lastCh v) = None"
  using assms
  by (auto simp add: run_effects_def Let_def distance_effect_def interval_effect_def
        countdown_effect_def interval_cleanup_def countdown_cleanup_def
      split: option.splits)

lemma reset_releases:
  assumes inv: "component_inv d w" and dest: "destinationPosition (cells w) \<noteq> None"
  shows "timers (step d now ResetClick w) = [] \<and> watching (step d now ResetClick w) = watching w"
proof (cases "mounted w")
  case False
  with inv show ?thesis
    by (simp add: step_def component_inv_def)
next
  case True
  define s' where "s' = resetDestination (cells w)"
  define v where "v = w\<lparr> cells := s' \<rparr>"
  define lastCh where "lastCh = (lastNotificationTime s' \<noteq> lastNotificationTime (cells w))"
  define w' where "w' = run_effects d now True lastCh v"
  have s': "destinationPosition s' = None" "lastNotificationTime s' = 0"
    by (simp_all add: s'_def resetDestination_def)
  have st: "step d now ResetClick w = commit d now True lastCh v"
    using True dest s'(1) by (auto simp add: step_def rerender_commit s'_def v_def lastCh_def)
  have nf: "\<not> distance_effect_fires d now (cells v)"
    using s'(1) by (simp add: v_def distance_effect_fires_def split: option.splits)
  then have "lastNotificationTime (cells w') = lastNotificationTime (cells v)"
    by (simp add: w'_def run_effects_last)
  then have c: "commit d now True lastCh v = w'"
    by (simp add: commit_unfold Let_def w'_def)
  have "lastCh \<or> countdownCleanup v = None"
    using inv s'(2) by (auto simp add: lastCh_def v_def component_inv_def)
  with run_effects_cleared [of v lastCh d now] s'
  have none: "intervalCleanup w' = None" "countdownCleanup w' = None"
    by (simp_all add: w'_def v_def)
  have "component_inv d (step d now ResetClick w)"
    using inv by (rule step_inv)
  then have "timers_owned w'"
    by (simp add: st c component_inv_def)
  with none have "timers w' = []"
    by (intro owned_none)
  moreover have "watching w' = watching w"
    using commit_frame(3) [of d now True lastCh v] c by (simp add: v_def)
  ultimately show ?thesis
    by (simp add: st c)
qed

lemma unmount_releases:
  assumes inv: "component_inv d w"
  shows "timers (step d now Unmount w) = [] \<and> \<not> watching (step d now Unmount w)"
proof (cases "mounted w")
  case False
  with inv show ?thesis
    by (simp add: step_def component_inv_def)
next
  case True
  from inv have "timers_owned w" "geoSupported w \<or> \<not> watching w"
    by (simp_all add: component_inv_def)
  with unmount_released(1,2) [of w] True show ?thesis
    by (simp add: step_def)
qed

lemma snooze_state:
  "run sample_distance snooze_history (mount sample_distance 999000 True (Some Granted)) =
     \<lparr> cells = \<lparr> userPosition = Some (18.5, 73.86), destinationPosition = Some (18.51, 73.86),
                 distanceMeters = Some 1200, geoError = None, selectedDistance = 5,
                 notificationsEnabled = True, notificationInterval = Some 1,
                 lastNotificationTime = 1310000, isNearDestination = True,
                 countdownSeconds = 299 \<rparr>,
       mounted = True, geoSupported = True, watching = True, permission = Some Granted,
       timers = [(1, NotifyTimer 1031000 (Some (18.5, 73.86)) (Some (18.51, 73.86)) 5),
                 (2, CountdownTimer 1012000 1310000)],
       nextTimer = 3, intervalCleanup = Some 1, countdownCleanup = Some 2,
       delivered = [(1001000, 5)] \<rparr>"
  by (simp add: snooze_history_def eval_simps)

subsection \<open>The cooldown is kept\<close>

lemma fix_while_snoozed:
  fixes distanceTo :: "latlng \<Rightarrow> latlng \<Rightarrow> real" and latitude longitude :: real and now :: nat
  assumes "mounted w" and "watching w"
    and "destinationPosition (cells w) = Some p" and "notificationsEnabled (cells w)"
    and "lastNotificationTime (cells w) = t + 300000"
  defines "sends \<equiv> distanceTo (latitude, longitude) p \<le> selectedDistance (cells w) * 1000
            \<and> t + 300000 + 30000 \<le> now"
  defines "w' \<equiv> step distanceTo now (PositionFix latitude longitude) w"
  shows "delivered w' =
           (if sends then delivered (sendNotification now (selectedDistance (cells w)) w)
            else delivered w)"
    and "lastNotificationTime (cells w') = (if sends then now else t + 300000)"
    and "mounted w'" and "watching w'" and "destinationPosition (cells w') = Some p"
    and "notificationsEnabled (cells w')"
    and "selectedDistance (cells w') = selectedDistance (cells w)"
proof -
  define s2 where "s2 = watchSuccess latitude longitude (cells w)"
  have s2: "userPosition s2 = Some (latitude, longitude)" "destinationPosition s2 = Some p"
    "notificationsEnabled s2" "selectedDistance s2 = selectedDistance (cells w)"
    "lastNotificationTime s2 = t + 300000"
    using assms(3-5) by (simp_all add: s2_def watchSuccess_def)
  have f2: "distance_effect_fires distanceTo now s2 = sends"
    using s2 by (auto simp add: distance_effect_fires_def sends_def)
  have st: "w' = rerender distanceTo now True s2 w"
    using assms(1,2) by (simp add: w'_def step_def s2_def)
  have "delivered (sendNotification now (selectedDistance (cells w)) (w\<lparr> cells := s2 \<rparr>))
      = delivered (sendNotification now (selectedDistance (cells w)) w)"
    by (intro sendNotification_delivered) simp_all
  then show "delivered w' =
           (if sends then delivered (sendNotification now (selectedDistance (cells w)) w)
            else delivered w)"
    using s2 f2 by (simp add: st rerender_commit commit_delivered_any)
  show "lastNotificationTime (cells w') = (if sends then now else t + 300000)"
    using s2 f2 by (simp add: st rerender_commit commit_last_any)
  show "mounted w'" "watching w'" "destinationPosition (cells w') = Some p"
    "notificationsEnabled (cells w')" "selectedDistance (cells w') = selectedDistance (cells w)"
    using assms(1,2) s2 by (simp_all add: st rerender_frame)
qed

lemma fixes_while_snoozed:
  assumes "mounted w" and "watching w"
    and "destinationPosition (cells w) = Some p" and "notificationsEnabled (cells w)"
    and "lastNotificationTime (cells w) = t + 300000"
    and "list_all (\<lambda>e. fst e < t + 300000 + 30000 \<and> position_fix (snd e)) evs"
  shows "delivered (run distanceTo evs w) = delivered w
       \<and> lastNotificationTime (cells (run distanceTo evs w)) = t + 300000"
  using assms
proof (induction evs arbitrary: w)
  case Nil
  then show ?case by simp
next
  case (Cons e evs)
  obtain now ev where e: "e = (now, ev)"
    by (cases e)
  from Cons.prems(6) e obtain latitude longitude
    where ev: "ev = PositionFix latitude longitude" and early: "now < t + 300000 + 30000"
    by (cases ev) (simp_all add: position_fix_def)
  define w' where "w' = step distanceTo now (PositionFix latitude longitude) w"
  note f = fix_while_snoozed [OF Cons.prems(1-5), where distanceTo = distanceTo
      and latitude = latitude and longitude = longitude and now = now, folded w'_def]
  from early f(1,2) have keep: "delivered w' = delivered w"
    "lastNotificationTime (cells w') = t + 300000"
    by simp_all
  from Cons.prems(6) have "list_all (\<lambda>e. fst e < t + 300000 + 30000 \<and> position_fix (snd e)) evs"
    by simp
  from Cons.IH [OF f(3,4,5,6) keep(2) this] keep(1) show ?case
    by (simp add: e ev w'_def)
qed


























lemma snoozed_state:
  "snoozed_browser =
     \<lparr> cells = \<lparr> userPosition = Some (18.5, 73.86), destinationPosition = Some (18.51, 73.86),
                 distanceMeters = Some 1200, geoError = None, selectedDistance = 5,
                 notificationsEnabled = True, notificationInterval = Some 1,
                 lastNotificationTime = 1310000, isNearDestination = True,
                 countdownSeconds = 299 \<rparr>,
       mounted = True, geoSupported = True, watching = True, permission = Some Granted,
       timers = [(1, NotifyTimer 1031000 (Some (18.5, 73.86)) (Some (18.51, 73.86)) 5),
                 (2, CountdownTimer 1012000 1310000)],
       nextTimer = 3, intervalCleanup = Some 1, countdownCleanup = Some 2,
       delivered = [(1001000, 5)] \<rparr>"
  unfolding snoozed_browser_def by (rule snooze_state)

section \<open>The claims\<close>

text \<open>
  A reachable state is \<open>run distanceTo evs (mount distanceTo t0 geo perm)\<close>: the
  component mounted at time \<open>t0\<close>, in a browser with or without geolocation and with any
  notification permission, after any history \<open>evs\<close> of timed events. A step is a handler
  together with the effects it triggers, up to the render after which no effect runs.
\<close>



text \<open>
  C2. The "I'm up" click at 1015000 sets \<open>lastNotificationTime\<close> to exactly
  1015000 + 300000 and delivers nothing. The tick of the 30 s interval at 1031000, inside
  the five minutes, delivers a notification all the same and overwrites
  \<open>lastNotificationTime\<close> with 1031000, which ends the snooze.
\<close>

theorem interval_tick_ignores_snooze:
  "lastNotificationTime (cells (step sample_distance 1015000 ImUpClick sample_browser))
     = 1015000 + 300000
   \<and> delivered (step sample_distance 1015000 ImUpClick sample_browser) = [(1001000, 5)]
   \<and> delivered (step sample_distance 1031000 (TimerFire 1)
        (step sample_distance 1015000 ImUpClick sample_browser)) = [(1001000, 5), (1031000, 5)]
   \<and> lastNotificationTime (cells (step sample_distance 1031000 (TimerFire 1)
        (step sample_distance 1015000 ImUpClick sample_browser))) = 1031000"
  by (simp add: sample_state eval_simps)

text \<open>
  C3. What the component holds in \<open>distanceMeters\<close> and \<open>isNearDestination\<close> is, in every
  reachable state, what \<open>evaluateProximity\<close> returns on the current position, the
  destination and the threshold: no distance and not near if one of the two points is
  absent, otherwise the distance between them and whether it is at most the threshold
  times 1000.
\<close>

theorem proximity_refines_evaluateProximity:
  "(distanceMeters (cells (run distanceTo evs (mount distanceTo t0 geo perm))),
    isNearDestination (cells (run distanceTo evs (mount distanceTo t0 geo perm))))
   = evaluateProximity distanceTo
       (userPosition (cells (run distanceTo evs (mount distanceTo t0 geo perm))))
       (destinationPosition (cells (run distanceTo evs (mount distanceTo t0 geo perm))))
       (selectedDistance (cells (run distanceTo evs (mount distanceTo t0 geo perm))))"
  using reachable_inv [of distanceTo evs t0 geo perm]
  by (auto simp add: component_inv_def derived_ok_def evaluateProximity_def split: option.splits)

theorem proximity_refines_evaluateProximity_witness:
  "(distanceMeters (cells sample_browser), isNearDestination (cells sample_browser))
     = evaluateProximity sample_distance (Some (18.5, 73.86)) (Some (18.51, 73.86)) 5
   \<and> distanceMeters (cells sample_browser) = Some 1200
   \<and> isNearDestination (cells sample_browser)"
  using proximity_refines_evaluateProximity
      [of sample_distance sample_history 999000 True "Some Granted"]
  by (simp add: sample_browser_def [symmetric]) (simp add: sample_state)

text \<open>
  C4. In every reachable state \<open>isNearDestination\<close> is true exactly when \<open>distanceMeters\<close>
  is not null and at most \<open>selectedDistance * 1000\<close>, and the state after any further
  event (a position update, a click setting the destination, a threshold change, a
  reset, or any other) satisfies it again.
\<close>

theorem near_matches_reachable:
  "near_matches (cells (run distanceTo evs (mount distanceTo t0 geo perm)))
   \<and> near_matches (cells (step distanceTo now ev (run distanceTo evs (mount distanceTo t0 geo perm))))"
  using reachable_inv [of distanceTo evs t0 geo perm]
    step_inv [OF reachable_inv [of distanceTo evs t0 geo perm], of now ev]
  by (auto simp add: component_inv_def derived_ok_def near_matches_def split: option.splits)

theorem near_matches_reachable_witness:
  "near_matches (cells sample_browser)
   \<and> near_matches (cells (step sample_distance 1002000 (SelectDistance 1) sample_browser))"
  unfolding sample_browser_def
  by (rule near_matches_reachable)

text \<open>
  C5. In every reachable state \<open>distanceMeters\<close> is null if and only if the current
  position or the destination is absent.
\<close>

theorem distance_null_iff_position_absent:
  "(distanceMeters (cells (run distanceTo evs (mount distanceTo t0 geo perm))) = None)
   = (userPosition (cells (run distanceTo evs (mount distanceTo t0 geo perm))) = None
      \<or> destinationPosition (cells (run distanceTo evs (mount distanceTo t0 geo perm))) = None)"
  using reachable_inv [of distanceTo evs t0 geo perm]
  by (auto simp add: component_inv_def derived_ok_def split: option.splits)

theorem distance_null_iff_position_absent_witness:
  "distanceMeters (cells (run sample_distance sample_history
       (mount sample_distance 999000 True (Some Granted)))) \<noteq> None
   \<and> distanceMeters (cells (run sample_distance (take 1 sample_history)
       (mount sample_distance 999000 True (Some Granted)))) = None"
  using distance_null_iff_position_absent
      [of sample_distance sample_history 999000 True "Some Granted"]
    distance_null_iff_position_absent
      [of sample_distance "take 1 sample_history" 999000 True "Some Granted"]
  by (simp add: eval_simps)

text \<open>
  C6. \<open>computeDistance\<close>, the great-circle distance on a sphere of radius 6371000 m, is
  symmetric in its two points and is 0 from a point to itself.
\<close>

theorem computeDistance_symmetric_zero:
  "computeDistance a b = computeDistance b a \<and> computeDistance p p = 0"
proof
  have lat: "sin ((fst b - fst a) * (pi / 180) / 2) * sin ((fst b - fst a) * (pi / 180) / 2)
      = sin ((fst a - fst b) * (pi / 180) / 2) * sin ((fst a - fst b) * (pi / 180) / 2)"
    by (rule sin_half_swap)
  have lon: "sin ((snd b - snd a) * (pi / 180) / 2) * sin ((snd b - snd a) * (pi / 180) / 2)
      = sin ((snd a - snd b) * (pi / 180) / 2) * sin ((snd a - snd b) * (pi / 180) / 2)"
    by (rule sin_half_swap)
  have "sin ((fst b - fst a) * (pi / 180) / 2) * sin ((fst b - fst a) * (pi / 180) / 2)
        + cos (fst a * (pi / 180)) * cos (fst b * (pi / 180))
          * sin ((snd b - snd a) * (pi / 180) / 2) * sin ((snd b - snd a) * (pi / 180) / 2)
      = sin ((fst a - fst b) * (pi / 180) / 2) * sin ((fst a - fst b) * (pi / 180) / 2)
        + cos (fst b * (pi / 180)) * cos (fst a * (pi / 180))
          * sin ((snd a - snd b) * (pi / 180) / 2) * sin ((snd a - snd b) * (pi / 180) / 2)"
    using lat lon by (simp add: mult.assoc mult.commute)
  then show "computeDistance a b = computeDistance b a"
    unfolding computeDistance_def Let_def by (simp only:)
next
  show "computeDistance p p = 0"
    by (simp add: computeDistance_def)
qed

theorem computeDistance_symmetric_zero_witness:
  "computeDistance (18.5, 73.86) (18.51, 73.86) = computeDistance (18.51, 73.86) (18.5, 73.86)
   \<and> computeDistance (18.5, 73.86) (18.5, 73.86) = 0"
  by (rule computeDistance_symmetric_zero)

text \<open>
  C7. \<open>resetDestination\<close> sets the destination and \<open>distanceMeters\<close> to null,
  \<open>isNearDestination\<close> to false and \<open>lastNotificationTime\<close> (which also carries the
  snooze) to 0, their initial values, and leaves \<open>selectedDistance\<close> and
  \<open>notificationsEnabled\<close> as they were; the effects that run after the Reset click
  change none of this.
\<close>

theorem resetDestination_clears:
  assumes "mounted w" and "destinationPosition (cells w) \<noteq> None"
  shows "destinationPosition (resetDestination (cells w)) = None
     \<and> distanceMeters (resetDestination (cells w)) = None
     \<and> \<not> isNearDestination (resetDestination (cells w))
     \<and> lastNotificationTime (resetDestination (cells w)) = 0
     \<and> selectedDistance (resetDestination (cells w)) = selectedDistance (cells w)
     \<and> notificationsEnabled (resetDestination (cells w)) = notificationsEnabled (cells w)
     \<and> destinationPosition (cells (step distanceTo now ResetClick w)) = None
     \<and> distanceMeters (cells (step distanceTo now ResetClick w)) = None
     \<and> \<not> isNearDestination (cells (step distanceTo now ResetClick w))
     \<and> lastNotificationTime (cells (step distanceTo now ResetClick w)) = 0
     \<and> selectedDistance (cells (step distanceTo now ResetClick w)) = selectedDistance (cells w)
     \<and> notificationsEnabled (cells (step distanceTo now ResetClick w)) = notificationsEnabled (cells w)"
proof -
  define s' where "s' = resetDestination (cells w)"
  define w' where "w' = rerender distanceTo now False s' w"
  have st: "step distanceTo now ResetClick w = w'"
    using assms by (simp add: step_def w'_def s'_def)
  have s': "destinationPosition s' = None" "distanceMeters s' = None" "\<not> isNearDestination s'"
    "lastNotificationTime s' = 0" "selectedDistance s' = selectedDistance (cells w)"
    "notificationsEnabled s' = notificationsEnabled (cells w)"
    by (simp_all add: s'_def resetDestination_def)
  have nf: "\<not> distance_effect_fires distanceTo now s'"
    using s'(1) by (simp add: distance_effect_fires_def split: option.splits)
  have ch: "destinationPosition s' \<noteq> destinationPosition (cells w)"
    using assms(2) s'(1) by auto
  have "derived_ok distanceTo (cells w')"
    unfolding w'_def rerender_commit
    using ch by (intro commit_derived) (simp_all add: s'_def absent_ok_simps)
  moreover have d: "destinationPosition (cells w') = None"
    by (simp add: w'_def rerender_frame s')
  ultimately have dn: "distanceMeters (cells w') = None \<and> \<not> isNearDestination (cells w')"
    by (auto simp add: derived_ok_def split: option.splits)
  have l: "lastNotificationTime (cells w') = 0"
    using nf by (simp add: w'_def rerender_commit commit_last_any s')
  from d dn l s' show ?thesis
    by (simp add: st) (simp add: w'_def rerender_frame s'_def [symmetric] s')
qed

theorem resetDestination_clears_witness:
  "mounted sample_browser \<and> destinationPosition (cells sample_browser) \<noteq> None
   \<and> lastNotificationTime (cells sample_browser) = 1001000
   \<and> destinationPosition (cells (step sample_distance 1040000 ResetClick sample_browser)) = None
   \<and> distanceMeters (cells (step sample_distance 1040000 ResetClick sample_browser)) = None
   \<and> \<not> isNearDestination (cells (step sample_distance 1040000 ResetClick sample_browser))
   \<and> lastNotificationTime (cells (step sample_distance 1040000 ResetClick sample_browser)) = 0
   \<and> selectedDistance (cells (step sample_distance 1040000 ResetClick sample_browser)) = 5
   \<and> notificationsEnabled (cells (step sample_distance 1040000 ResetClick sample_browser))"
proof -
  have m: "mounted sample_browser"
    by (simp add: sample_state)
  have p: "destinationPosition (cells sample_browser) \<noteq> None"
    by (simp add: sample_state)
  from resetDestination_clears [OF m p, of sample_distance 1040000] m p show ?thesis
    by (simp add: sample_state)
qed

text \<open>
  C8. \<open>handleDistanceChange\<close> stores the new threshold and sets \<open>lastNotificationTime\<close>
  to 0. With both positions known, notifications on and the user within the new
  threshold, the condition of the distance effect then holds, and the render that follows
  a change of threshold sends a notification at once (the clock being at least 30000 ms
  past the epoch), whatever the time of the last one.
\<close>

theorem handleDistanceChange_rearms:
  assumes "mounted w"
    and "userPosition (cells w) = Some u" and "destinationPosition (cells w) = Some p"
    and "notificationsEnabled (cells w)"
    and "km \<noteq> selectedDistance (cells w) \<or> lastNotificationTime (cells w) \<noteq> 0"
    and "distanceTo u p \<le> km * 1000" and "30000 \<le> now"
  shows "selectedDistance (handleDistanceChange km (cells w)) = km
     \<and> lastNotificationTime (handleDistanceChange km (cells w)) = 0
     \<and> distance_effect_fires distanceTo now (handleDistanceChange km (cells w))
     \<and> selectedDistance (cells (step distanceTo now (SelectDistance km) w)) = km
     \<and> delivered (step distanceTo now (SelectDistance km) w) = delivered (sendNotification now km w)"
proof -
  define s' where "s' = handleDistanceChange km (cells w)"
  have s': "selectedDistance s' = km" "lastNotificationTime s' = 0"
    "userPosition s' = Some u" "destinationPosition s' = Some p" "notificationsEnabled s'"
    using assms by (simp_all add: s'_def handleDistanceChange_def)
  have f: "distance_effect_fires distanceTo now s'"
    using assms(6,7) s' by (simp add: distance_effect_fires_def)
  have st: "step distanceTo now (SelectDistance km) w = rerender distanceTo now False s' w"
    using assms(1) by (simp add: step_def s'_def)
  have "delivered (rerender distanceTo now False s' w)
      = delivered (sendNotification now km (w\<lparr> cells := s' \<rparr>))"
    using assms(5) f s' by (auto simp add: rerender_commit commit_delivered_any)
  also have "\<dots> = delivered (sendNotification now km w)"
    by (rule sendNotification_delivered) simp_all
  finally show ?thesis
    using s' f by (simp add: st rerender_frame) (simp add: s'_def)
qed

theorem handleDistanceChange_rearms_witness:
  "mounted sample_browser
   \<and> lastNotificationTime (cells sample_browser) = 1001000
   \<and> selectedDistance (cells (step sample_distance 1002000 (SelectDistance 10) sample_browser)) = 10
   \<and> delivered (step sample_distance 1002000 (SelectDistance 10) sample_browser)
       = [(1001000, 5), (1002000, 10)]"
proof -
  have h: "mounted sample_browser"
    "userPosition (cells sample_browser) = Some (18.5, 73.86)"
    "destinationPosition (cells sample_browser) = Some (18.51, 73.86)"
    "notificationsEnabled (cells sample_browser)"
    "10 \<noteq> selectedDistance (cells sample_browser) \<or> lastNotificationTime (cells sample_browser) \<noteq> 0"
    "sample_distance (18.5, 73.86) (18.51, 73.86) \<le> 10 * 1000"
    "(30000::nat) \<le> 1002000"
    by (simp_all add: sample_state sample_distance_def)
  from handleDistanceChange_rearms
      [where w = sample_browser and u = "(18.5, 73.86)" and p = "(18.51, 73.86)" and km = 10
         and distanceTo = sample_distance and now = 1002000, OF h]
  show ?thesis
    by (simp add: sample_state sendNotification_def)
qed

text \<open>
  C9, as the code has it. Clearing the destination releases every interval (the 30 s
  notification interval and the countdown) and leaves the geolocation watch as it was;
  unmounting the component releases every interval and the geolocation watch.
\<close>

theorem reset_and_unmount_release:
  "(destinationPosition (cells (run distanceTo evs (mount distanceTo t0 geo perm))) \<noteq> None \<longrightarrow>
      timers (step distanceTo now ResetClick (run distanceTo evs (mount distanceTo t0 geo perm))) = []
      \<and> watching (step distanceTo now ResetClick (run distanceTo evs (mount distanceTo t0 geo perm)))
          = watching (run distanceTo evs (mount distanceTo t0 geo perm)))
   \<and> timers (step distanceTo now Unmount (run distanceTo evs (mount distanceTo t0 geo perm))) = []
   \<and> \<not> watching (step distanceTo now Unmount (run distanceTo evs (mount distanceTo t0 geo perm)))"
  using reset_releases [OF reachable_inv [of distanceTo evs t0 geo perm], of now]
    unmount_releases [OF reachable_inv [of distanceTo evs t0 geo perm], of now]
  by simp

theorem reset_and_unmount_release_witness:
  "destinationPosition (cells sample_browser) \<noteq> None
   \<and> timers sample_browser \<noteq> []
   \<and> timers (step sample_distance 1040000 ResetClick sample_browser) = []
   \<and> watching (step sample_distance 1040000 ResetClick sample_browser)
   \<and> timers (step sample_distance 1040000 Unmount sample_browser) = []
   \<and> \<not> watching (step sample_distance 1040000 Unmount sample_browser)"
proof -
  have h: "destinationPosition (cells sample_browser) \<noteq> None" "timers sample_browser \<noteq> []"
    "watching sample_browser"
    by (simp_all add: sample_state)
  from reset_and_unmount_release
    [of sample_distance sample_history 999000 True "Some Granted" 1040000,
      folded sample_browser_def] h
  show ?thesis
    by simp
qed

text \<open>
  C9, as stated, fails for the geolocation watch: after the Reset click has cleared the
  destination of the sample run, the watch is still active.
\<close>

theorem watch_survives_reset:
  "destinationPosition (cells sample_browser) \<noteq> None
   \<and> destinationPosition (cells (step sample_distance 1040000 ResetClick sample_browser)) = None
   \<and> watching (step sample_distance 1040000 ResetClick sample_browser)"
  by (simp add: sample_state eval_simps)

text \<open>
  C10. The "I'm up" click at time \<open>t\<close> stores \<open>t + 300000\<close> in \<open>lastNotificationTime\<close>,
  the cell the cooldown is measured from. In every state that holds this value, whatever
  happened since the click, a position update at time \<open>now\<close> sends a notification exactly
  when it finds the user within the threshold and \<open>t + 300000 + 30000 \<le> now\<close>, and
  otherwise leaves the value in place; so no sequence of position updates before
  \<open>t + 300000 + 30000\<close> delivers anything. On this path the first notification comes no
  earlier than 30 s after the end of the five minutes.
\<close>

theorem snooze_extends_cooldown:
  "(mounted w0 \<and> destinationPosition (cells w0) \<noteq> None \<and> notificationsEnabled (cells w0)
      \<and> countdownSeconds (cells w0) = 0
     \<longrightarrow> lastNotificationTime (cells (step distanceTo t ImUpClick w0)) = t + 300000)
   \<and> (mounted w \<and> watching w \<and> destinationPosition (cells w) = Some p
      \<and> notificationsEnabled (cells w) \<and> lastNotificationTime (cells w) = t + 300000
     \<longrightarrow> delivered (step distanceTo now (PositionFix latitude longitude) w) =
          (if distanceTo (latitude, longitude) p \<le> selectedDistance (cells w) * 1000
              \<and> t + 300000 + 30000 \<le> now
           then delivered (sendNotification now (selectedDistance (cells w)) w)
           else delivered w)
       \<and> lastNotificationTime (cells (step distanceTo now (PositionFix latitude longitude) w)) =
          (if distanceTo (latitude, longitude) p \<le> selectedDistance (cells w) * 1000
              \<and> t + 300000 + 30000 \<le> now
           then now else t + 300000)
       \<and> (list_all (\<lambda>e. fst e < t + 300000 + 30000 \<and> position_fix (snd e)) evs
           \<longrightarrow> delivered (run distanceTo evs w) = delivered w
             \<and> lastNotificationTime (cells (run distanceTo evs w)) = t + 300000))"
proof (intro conjI impI)
  assume a: "mounted w0 \<and> destinationPosition (cells w0) \<noteq> None \<and> notificationsEnabled (cells w0)
      \<and> countdownSeconds (cells w0) = 0"
  define s' where "s' = imUpClick t (cells w0)"
  have st: "step distanceTo t ImUpClick w0 = rerender distanceTo t False s' w0"
    using a by (simp add: step_def s'_def)
  have l: "lastNotificationTime s' = t + 300000"
    by (simp add: s'_def imUpClick_def)
  then have "\<not> distance_effect_fires distanceTo t s'"
    by (simp add: distance_effect_fires_def split: option.splits)
  with l show "lastNotificationTime (cells (step distanceTo t ImUpClick w0)) = t + 300000"
    by (simp add: st rerender_commit commit_last_any)
next
  assume a: "mounted w \<and> watching w \<and> destinationPosition (cells w) = Some p
      \<and> notificationsEnabled (cells w) \<and> lastNotificationTime (cells w) = t + 300000"
  then have h: "mounted w" "watching w" "destinationPosition (cells w) = Some p"
    "notificationsEnabled (cells w)" "lastNotificationTime (cells w) = t + 300000"
    by simp_all
  from fix_while_snoozed(1) [OF h]
  show "delivered (step distanceTo now (PositionFix latitude longitude) w) =
          (if distanceTo (latitude, longitude) p \<le> selectedDistance (cells w) * 1000
              \<and> t + 300000 + 30000 \<le> now
           then delivered (sendNotification now (selectedDistance (cells w)) w)
           else delivered w)" .
  from fix_while_snoozed(2) [OF h]
  show "lastNotificationTime (cells (step distanceTo now (PositionFix latitude longitude) w)) =
          (if distanceTo (latitude, longitude) p \<le> selectedDistance (cells w) * 1000
              \<and> t + 300000 + 30000 \<le> now
           then now else t + 300000)" .
  assume "list_all (\<lambda>e. fst e < t + 300000 + 30000 \<and> position_fix (snd e)) evs"
  from fixes_while_snoozed [OF h this]
  show "delivered (run distanceTo evs w) = delivered w"
    "lastNotificationTime (cells (run distanceTo evs w)) = t + 300000"
    by simp_all
qed

theorem snooze_extends_cooldown_witness:
  "lastNotificationTime (cells (step sample_distance 1010000 ImUpClick sample_browser)) = 1310000
   \<and> lastNotificationTime (cells snoozed_browser) = 1310000
   \<and> countdownSeconds (cells snoozed_browser) = 299
   \<and> delivered (step sample_distance 1339999 (PositionFix 18.5 73.86) snoozed_browser)
       = [(1001000, 5)]
   \<and> delivered (step sample_distance 1340000 (PositionFix 18.5 73.86) snoozed_browser)
       = [(1001000, 5), (1340000, 5)]
   \<and> delivered (run sample_distance
         [(1100000, PositionFix 18.5 73.86), (1300000, PositionFix 18.5 73.87)] snoozed_browser)
       = [(1001000, 5)]"
proof -
  have h0: "mounted sample_browser \<and> destinationPosition (cells sample_browser) \<noteq> None
      \<and> notificationsEnabled (cells sample_browser) \<and> countdownSeconds (cells sample_browser) = 0"
    by (simp add: sample_state)
  have h: "mounted snoozed_browser \<and> watching snoozed_browser
      \<and> destinationPosition (cells snoozed_browser) = Some (18.51, 73.86)
      \<and> notificationsEnabled (cells snoozed_browser)
      \<and> lastNotificationTime (cells snoozed_browser) = 1010000 + 300000"
    by (simp add: snoozed_state)
  have hl: "list_all (\<lambda>e. fst e < 1010000 + 300000 + 30000 \<and> position_fix (snd e))
      [(1100000 :: nat, PositionFix 18.5 73.86), (1300000, PositionFix 18.5 73.87)]"
    by (simp add: position_fix_def)
  have v: "selectedDistance (cells snoozed_browser) = 5" "delivered snoozed_browser = [(1001000, 5)]"
    "permission snoozed_browser = Some Granted" "countdownSeconds (cells snoozed_browser) = 299"
    by (simp_all add: snoozed_state)
  note a = snooze_extends_cooldown
    [where ?w0.0 = sample_browser and w = snoozed_browser and t = 1010000
       and p = "(18.51, 73.86)" and distanceTo = sample_distance
       and latitude = "18.5" and longitude = "73.86"
       and evs = "[(1100000, PositionFix 18.5 73.86), (1300000, PositionFix 18.5 73.87)]"]
  from a [where now = 1339999] a [where now = 1340000] h0 h hl v show ?thesis
    by (simp add: sendNotification_def sample_distance_def)
qed

end
